theory Spec2Isabelle
  imports Main "HOL-Library.Multiset"
begin

section \<open>The user ledger of the Ghibli bot (utils.py, config.py)\<close>

text \<open>
  The ledger is one JSON document on disk. Every operation of utils.py reads it with
  \<open>load_database\<close>, changes the dictionary it got, and writes it back with
  \<open>save_database\<close>. The embedding follows that: a file system state \<open>fs\<close> is threaded
  through every function, and a dictionary returned by \<open>load_database\<close> is a value of its
  own (json.load builds fresh objects), independent of any later load.

  Modelling decisions.
  \<^item> A user identity is the integer the handlers pass in. The document keys users by
    \<open>str(user_id)\<close>, and reads them back with \<open>int(...)\<close>; the decimal rendering is
    injective, so the keys are modelled by the integers themselves.
  \<^item> Time stamps (\<open>datetime.now()\<close>, \<open>time.time()\<close>) are seconds as \<open>int\<close>; the calendar
    date \<open>strftime("%Y-%m-%d")\<close> is a string. Both come from the environment and are
    constant during one operation.
  \<^item> A document on disk either parses to a well-shaped store, or does not parse.
  \<^item> The user record's \<open>preferences\<close> (a float strength and a flag) are not read by any
    function modelled here and are left out.
\<close>

subsection \<open>Configuration (config.py)\<close>

definition daily_limit :: int where "daily_limit = 2"
definition vip_daily_limit :: int where "vip_daily_limit = 5"
definition referrer_bonus :: int where "referrer_bonus = 2"
definition referee_bonus :: int where "referee_bonus = 1"
definition min_uses_for_extra_bonus :: nat where "min_uses_for_extra_bonus = 5"
definition extra_bonus :: int where "extra_bonus = 3"
definition auto_backup :: bool where "auto_backup = True"
definition backup_interval :: int where "backup_interval = 24"
definition bot_version :: string where "bot_version = ''1.3.0''"
definition bot_username :: string where "bot_username = ''ghibli_style_bot''"

text \<open>\<open>USER_ROLES\<close>, in the order the dictionary is written (and iterated).\<close>

definition USER_ROLES :: "(string \<times> int list) list" where
  "USER_ROLES =
     [(''owner'', [123456789]),
      (''admin'', [234567890, 345678901]),
      (''moderator'', [456789012, 567890123])]"

subsection \<open>Data model\<close>

record referral_rec =
  referral_code :: string
  referred_by :: "int option"
  referred_users :: "int list"
  total_referrals :: int
  bonus_claimed :: bool
  link_created_at :: "int option"

record user_data =
  user_id :: int
  username :: string
  first_name :: string
  last_name :: string
  join_date :: int
  status :: string
  role :: string
  remaining_limit :: int
  total_generations :: int
  last_reset_date :: string
  last_generation_time :: "int option"
  referral :: referral_rec

text \<open>An entry of a top list: the identity, the display fields and the value of the sort key.\<close>

record top_entry =
  top_user_id :: int
  top_username :: string
  top_first_name :: string
  top_last_name :: string
  top_metric :: int

record link_rec =
  link_user_id :: int
  link_created :: int
  uses :: int

record stats_rec =
  stats_total_generations :: int
  stats_total_users :: int
  stats_total_referrals :: int
  top_users :: "top_entry list"
  top_referrers :: "top_entry list"

record referrals_rec =
  active_links :: "string \<rightharpoonup> link_rec"
  total_conversions :: int

record meta_rec =
  version :: string
  last_backup :: "int option"
  created_at :: int
  updated_at :: int

record database =
  users :: "int \<rightharpoonup> user_data"
  stats :: stats_rec
  referrals :: referrals_rec
  meta :: meta_rec

text \<open>
  What a path on disk holds: a document that parses to a store, bytes that do not parse,
  or the beginning of a store's rendering left by a write that failed half way (which
  does not parse either).
\<close>

datatype doc = Json database | Unparsable string | Partial database

record fs =
  db_doc :: "doc option"
  temp_doc :: "doc option"
  quarantine :: "int \<rightharpoonup> doc"
  backups :: "(int \<times> doc) list"

text \<open>
  The faults a write can meet. \<open>save_database\<close> catches every exception, so each fault is
  a branch of it: the temporary file cannot be written; \<open>os.replace\<close> fails; the copy
  made by \<open>backup_database\<close> fails (caught there); the second write of the primary
  document, after a backup, stops half way and leaves the beginning of the rendering.
\<close>

datatype fault = NoFault | TempWriteFails | ReplaceFails | BackupCopyFails | BackupRewriteFails

text \<open>
  The environment of one operation: the clock, the calendar date, the fault the disk
  answers writes with, and the referral code \<open>generate_referral_code\<close> derives (an MD5 of
  the identity, the bot name and the clock, base64 encoded and cut to 8 characters).
\<close>

record env =
  now :: int
  today :: string
  fault :: fault
  gen_code :: "int \<Rightarrow> string"

subsection \<open>Schema defaults\<close>

definition get_database_schema :: "env \<Rightarrow> database" where
  "get_database_schema e =
     \<lparr> users = Map.empty,
       stats = \<lparr> stats_total_generations = 0, stats_total_users = 0,
                 stats_total_referrals = 0, top_users = [], top_referrers = [] \<rparr>,
       referrals = \<lparr> active_links = Map.empty, total_conversions = 0 \<rparr>,
       meta = \<lparr> version = bot_version, last_backup = None,
                created_at = now e, updated_at = now e \<rparr> \<rparr>"

definition get_user_schema :: "env \<Rightarrow> user_data" where
  "get_user_schema e =
     \<lparr> user_id = 0, username = [], first_name = [], last_name = [],
       join_date = now e, status = ''active'', role = ''user'',
       remaining_limit = daily_limit, total_generations = 0,
       last_reset_date = today e, last_generation_time = None,
       referral = \<lparr> referral_code = [], referred_by = None, referred_users = [],
                    total_referrals = 0, bonus_claimed = False,
                    link_created_at = None \<rparr> \<rparr>"

subsection \<open>Persistent store\<close>

text \<open>
  \<open>backup_database\<close>: copies the primary document under a timestamped name. A failed copy
  is caught and answered with False.
\<close>

definition backup_database :: "env \<Rightarrow> fs \<Rightarrow> bool \<times> fs" where
  "backup_database e s =
     (case db_doc s of
        None \<Rightarrow> (False, s)
      | Some d \<Rightarrow>
          if fault e = BackupCopyFails then (False, s)
          else (True, s\<lparr>backups := (now e, d) # backups s\<rparr>))"

text \<open>
  \<open>save_database\<close>. The dictionary is changed in place (\<open>updated_at\<close>, \<open>last_backup\<close>), so
  the function returns it next to the success flag: \<open>load_database\<close> hands the same object
  to its caller.
\<close>

definition save_database :: "env \<Rightarrow> database \<Rightarrow> fs \<Rightarrow> (bool \<times> database) \<times> fs" where
  "save_database e db s =
     (let db1 = db\<lparr>meta := (meta db)\<lparr>updated_at := now e\<rparr>\<rparr> in
      if fault e = TempWriteFails then ((False, db1), s\<lparr>temp_doc := None\<rparr>)
      else
        let s1 = s\<lparr>temp_doc := Some (Json db1)\<rparr> in
        if fault e = ReplaceFails then ((False, db1), s1\<lparr>temp_doc := None\<rparr>)
        else
          let s2 = s1\<lparr>db_doc := temp_doc s1, temp_doc := None\<rparr> in
          if auto_backup \<and>
             (case last_backup (meta db1) of
                None \<Rightarrow> True
              | Some t \<Rightarrow> now e - t > backup_interval * 3600)
          then
            (case backup_database e s2 of
               (True, s3) \<Rightarrow>
                 let db2 = db1\<lparr>meta := (meta db1)\<lparr>last_backup := Some (now e)\<rparr>\<rparr> in
                 if fault e = BackupRewriteFails
                 then ((False, db2), s3\<lparr>db_doc := Some (Partial db2)\<rparr>)
                 else ((True, db2), s3\<lparr>db_doc := Some (Json db2)\<rparr>)
             | (False, s3) \<Rightarrow> ((True, db1), s3))
          else ((True, db1), s2))"

text \<open>
  \<open>load_database\<close>. A document that parses is returned with \<open>updated_at\<close> stamped in
  memory; nothing is written. A document that does not parse is renamed to
  \<open>db_file.corrupt.N\<close> with \<open>N = int(time.time())\<close>, and then, as when there is no document, the
  schema defaults are saved and returned.
\<close>

definition load_database :: "env \<Rightarrow> fs \<Rightarrow> database \<times> fs" where
  "load_database e s =
     (case db_doc s of
        Some (Json db) \<Rightarrow> (db\<lparr>meta := (meta db)\<lparr>updated_at := now e\<rparr>\<rparr>, s)
      | Some d \<Rightarrow>
          (let s1 = s\<lparr>db_doc := None, quarantine := (quarantine s)(now e \<mapsto> d)\<rparr>;
               ((ok, db), s2) = save_database e (get_database_schema e) s1
           in (db, s2))
      | None \<Rightarrow>
          (let ((ok, db), s2) = save_database e (get_database_schema e) s
           in (db, s2)))"

subsection \<open>Role resolver and quota manager\<close>

text \<open>
  \<open>get_user_role\<close>: the static configuration first, in its order; then the stored record.
\<close>

definition get_user_role :: "env \<Rightarrow> int \<Rightarrow> fs \<Rightarrow> string \<times> fs" where
  "get_user_role e uid s =
     (case find (\<lambda>(r, ids). uid \<in> set ids) USER_ROLES of
        Some (r, ids) \<Rightarrow> (r, s)
      | None \<Rightarrow>
          (let (db, s1) = load_database e s in
           case users db uid of
             Some u \<Rightarrow> (role u, s1)
           | None \<Rightarrow> (''user'', s1)))"

text \<open>
  \<open>get_user_data\<close>: a new identity gets the schema defaults and is saved; an existing
  record whose \<open>last_reset_date\<close> is not today gets the allowance of its role and today's
  date, and is saved.
\<close>

definition get_user_data :: "env \<Rightarrow> int \<Rightarrow> fs \<Rightarrow> user_data \<times> fs" where
  "get_user_data e uid s =
     (let (db, s1) = load_database e s in
      case users db uid of
        None \<Rightarrow>
          (let ud = (get_user_schema e)\<lparr>user_id := uid\<rparr>;
               db1 = db\<lparr>users := (users db)(uid \<mapsto> ud),
                        stats := (stats db)\<lparr>stats_total_users :=
                                   stats_total_users (stats db) + 1\<rparr>\<rparr>;
               (r, s2) = save_database e db1 s1
           in (ud, s2))
      | Some ud \<Rightarrow>
          if last_reset_date ud \<noteq> today e then
            (let (rl, s2) = get_user_role e uid s1;
                 ud1 = ud\<lparr>remaining_limit :=
                            (if rl = ''vip'' then vip_daily_limit else daily_limit),
                          last_reset_date := today e\<rparr>;
                 db1 = db\<lparr>users := (users db)(uid \<mapsto> ud1)\<rparr>;
                 (r, s3) = save_database e db1 s2
             in (ud1, s3))
          else (ud, s1))"

text \<open>
  \<open>update_user_data\<close> takes a dictionary of fields. The callers in utils.py pass
  \<open>{"remaining_limit": n}\<close> or \<open>{"referral": r}\<close> with \<open>r\<close> a complete referral
  sub-dictionary, so that the nested \<open>dict.update\<close> replaces every key of it.
\<close>

datatype field_update = SetRemainingLimit int | SetReferral referral_rec

fun apply_update :: "user_data \<Rightarrow> field_update \<Rightarrow> user_data" where
  "apply_update u (SetRemainingLimit n) = u\<lparr>remaining_limit := n\<rparr>"
| "apply_update u (SetReferral r) = u\<lparr>referral := r\<rparr>"

definition update_user_data :: "env \<Rightarrow> int \<Rightarrow> field_update list \<Rightarrow> fs \<Rightarrow> bool \<times> fs" where
  "update_user_data e uid update_data s =
     (let (db, s1) = load_database e s in
      case users db uid of
        Some u \<Rightarrow>
          (let db1 = db\<lparr>users := (users db)(uid \<mapsto> foldl apply_update u update_data)\<rparr>;
               ((ok, db2), s2) = save_database e db1 s1
           in (ok, s2))
      | None \<Rightarrow> (False, s1))"

definition modify_user_limit :: "env \<Rightarrow> int \<Rightarrow> int \<Rightarrow> fs \<Rightarrow> (bool \<times> int) \<times> fs" where
  "modify_user_limit e uid amount s =
     (let (ud, s1) = get_user_data e uid s;
          new_limit = max 0 (remaining_limit ud + amount);
          (success, s2) = update_user_data e uid [SetRemainingLimit new_limit] s1
      in ((success, new_limit), s2))"

subsection \<open>Leaderboard maintainer\<close>

datatype error = KeyError

text \<open>
  \<open>user_data[sort_key]\<close>: the integer keys at the top level of a user record. The
  referral count is not among them: it lives in the \<open>referral\<close> sub-dictionary.
\<close>

definition user_key :: "user_data \<Rightarrow> string \<Rightarrow> error + int" where
  "user_key u k =
     (if k = ''total_generations'' then Inr (total_generations u)
      else if k = ''remaining_limit'' then Inr (remaining_limit u)
      else Inl KeyError)"

text \<open>The loop over the list: the first entry of the identity is overwritten, then \<open>break\<close>.\<close>

fun overwrite_first :: "int \<Rightarrow> user_data \<Rightarrow> int \<Rightarrow> top_entry list \<Rightarrow> top_entry list option" where
  "overwrite_first uid ud v [] = None"
| "overwrite_first uid ud v (x # xs) =
     (if top_user_id x = uid
      then Some (x\<lparr>top_metric := v, top_username := username ud,
                   top_first_name := first_name ud\<rparr> # xs)
      else map_option ((#) x) (overwrite_first uid ud v xs))"

text \<open>
  \<open>sorted(..., key, reverse=True)\<close> is stable: descending by the key, entries with equal
  keys in their previous order. That is a stable ascending sort by the negated key.
\<close>

definition sort_desc :: "top_entry list \<Rightarrow> top_entry list" where
  "sort_desc xs = sort_key (\<lambda>x. - top_metric x) xs"

text \<open>The entry appended for an identity that is not in the list.\<close>

definition new_entry :: "int \<Rightarrow> user_data \<Rightarrow> int \<Rightarrow> top_entry" where
  "new_entry uid ud v =
     \<lparr> top_user_id = uid, top_username = username ud, top_first_name = first_name ud,
       top_last_name = last_name ud, top_metric = v \<rparr>"

definition update_entries :: "top_entry list \<Rightarrow> int \<Rightarrow> user_data \<Rightarrow> int \<Rightarrow> nat \<Rightarrow> top_entry list" where
  "update_entries xs uid ud v max_entries =
     (let ys = (case overwrite_first uid ud v xs of
                  Some zs \<Rightarrow> zs
                | None \<Rightarrow> xs @ [new_entry uid ud v])
      in take max_entries (sort_desc ys))"

definition get_list :: "database \<Rightarrow> string \<Rightarrow> error + top_entry list" where
  "get_list db list_name =
     (if list_name = ''top_users'' then Inr (top_users (stats db))
      else if list_name = ''top_referrers'' then Inr (top_referrers (stats db))
      else Inl KeyError)"

definition set_list :: "database \<Rightarrow> string \<Rightarrow> top_entry list \<Rightarrow> database" where
  "set_list db list_name xs =
     (if list_name = ''top_users'' then db\<lparr>stats := (stats db)\<lparr>top_users := xs\<rparr>\<rparr>
      else db\<lparr>stats := (stats db)\<lparr>top_referrers := xs\<rparr>\<rparr>)"

text \<open>
  \<open>update_top_list\<close> with the default \<open>max_entries = 10\<close>. Whether the identity is found
  or not, \<open>user_data[sort_key]\<close> is evaluated before the list is changed, so a missing
  key raises with the store untouched.
\<close>

definition update_top_list :: "database \<Rightarrow> string \<Rightarrow> int \<Rightarrow> user_data \<Rightarrow> string \<Rightarrow> error + database" where
  "update_top_list db list_name uid ud sort_field =
     (case get_list db list_name of
        Inl err \<Rightarrow> Inl err
      | Inr xs \<Rightarrow>
          (case user_key ud sort_field of
             Inl err \<Rightarrow> Inl err
           | Inr v \<Rightarrow> Inr (set_list db list_name (update_entries xs uid ud v 10))))"


definition update_user_stats :: "env \<Rightarrow> int \<Rightarrow> user_data \<Rightarrow> fs \<Rightarrow> (error + unit) \<times> fs" where
  "update_user_stats e uid ud s =
     (let (db, s1) = load_database e s;
          db1 = db\<lparr>stats := (stats db)\<lparr>stats_total_generations :=
                                 stats_total_generations (stats db) + 1\<rparr>\<rparr>
      in case update_top_list db1 ''top_users'' uid ud ''total_generations'' of
           Inl err \<Rightarrow> (Inl err, s1)
         | Inr db2 \<Rightarrow> (let (r, s2) = save_database e db2 s1 in (Inr (), s2)))"

subsection \<open>Referral engine\<close>

fun str_nat :: "nat \<Rightarrow> string" where
  "str_nat n =
     (if n < 10 then [''0123456789'' ! n]
      else str_nat (n div 10) @ [''0123456789'' ! (n mod 10)])"

definition str_int :: "int \<Rightarrow> string" where
  "str_int i = (if i < 0 then CHR ''-'' # str_nat (nat (- i)) else str_nat (nat i))"

text \<open>
  \<open>referral_link_format\<close> is \<open>"https://t.me/{bot_username}?start=ref_{user_id}"\<close>: the
  code passed to \<open>format\<close> is not used by it.
\<close>

definition referral_link_format :: "string \<Rightarrow> int \<Rightarrow> string \<Rightarrow> string" where
  "referral_link_format bname uid ref_code =
     ''https://t.me/'' @ bname @ ''?start=ref_'' @ str_int uid"

text \<open>
  \<open>create_referral_link\<close>. The store \<open>db\<close> is loaded first; the user record is then read
  and updated through \<open>get_user_data\<close> and \<open>update_user_data\<close>, which load and save the
  document themselves; the link is registered in \<open>db\<close>, and \<open>db\<close> is saved.
\<close>

definition create_referral_link :: "env \<Rightarrow> int \<Rightarrow> fs \<Rightarrow> string \<times> fs" where
  "create_referral_link e uid s =
     (let (db, s0) = load_database e s;
          (ud, s1) = get_user_data e uid s0
      in if referral_code (referral ud) = [] then
           (let ref_code = gen_code e uid;
                r1 = (referral ud)\<lparr>referral_code := ref_code,
                                   link_created_at := Some (now e)\<rparr>;
                (ok, s2) = update_user_data e uid [SetReferral r1] s1;
                db1 = db\<lparr>referrals := (referrals db)\<lparr>active_links :=
                         (active_links (referrals db))(ref_code \<mapsto>
                            \<lparr> link_user_id = uid, link_created = now e, uses = 0 \<rparr>)\<rparr>\<rparr>;
                (r, s3) = save_database e db1 s2
            in (referral_link_format bot_username uid ref_code, s3))
         else (referral_link_format bot_username uid (referral_code (referral ud)), s1))"

text \<open>
  \<open>process_referral\<close>. As above, \<open>db\<close> is the store loaded at the start; every helper
  loads and saves the document itself. After the three checks the steps are, in order:
  the referee's bonus, the referee's \<open>referred_by\<close>, the referrer's bonus, the referrer's
  \<open>referred_users\<close> and \<open>total_referrals\<close>, the counters of \<open>db\<close>, the extra bonus, the
  top list of \<open>db\<close>, and the save of \<open>db\<close>.
\<close>

definition process_referral ::
  "env \<Rightarrow> int \<Rightarrow> string \<Rightarrow> fs \<Rightarrow> (error + bool \<times> user_data option) \<times> fs" where
  "process_referral e referee_id ref_code s =
     (let (db, s0) = load_database e s in
      case active_links (referrals db) ref_code of
        None \<Rightarrow> (Inr (False, None), s0)
      | Some referral_info \<Rightarrow>
          (let referrer_id = link_user_id referral_info in
           if referee_id = referrer_id then (Inr (False, None), s0)
           else
             (let (referee_data, s1) = get_user_data e referee_id s0 in
              if referred_by (referral referee_data) \<noteq> None then (Inr (False, None), s1)
              else
                (let (r2, s2) = modify_user_limit e referee_id referee_bonus s1;
                     referee_ref = (referral referee_data)\<lparr>referred_by := Some referrer_id\<rparr>;
                     (r3, s3) = update_user_data e referee_id [SetReferral referee_ref] s2;
                     (referrer_data, s4) = get_user_data e referrer_id s3;
                     (r5, s5) = modify_user_limit e referrer_id referrer_bonus s4;
                     ru = referred_users (referral referrer_data);
                     ref1 = (referral referrer_data)
                              \<lparr>referred_users :=
                                 (if referee_id \<in> set ru then ru else ru @ [referee_id]),
                               total_referrals := total_referrals (referral referrer_data) + 1\<rparr>;
                     (r6, s6) = update_user_data e referrer_id [SetReferral ref1] s5;
                     db1 = db\<lparr>referrals := (referrals db)
                              \<lparr>active_links := (active_links (referrals db))
                                 (ref_code \<mapsto> referral_info\<lparr>uses := uses referral_info + 1\<rparr>),
                               total_conversions := total_conversions (referrals db) + 1\<rparr>\<rparr>;
                     (ref2, s8) =
                       (if \<not> bonus_claimed ref1 \<and>
                           length (referred_users ref1) \<ge> min_uses_for_extra_bonus
                        then
                          (let (r7, s7) = modify_user_limit e referrer_id extra_bonus s6;
                               ref2 = ref1\<lparr>bonus_claimed := True\<rparr>;
                               (r8, s8) = update_user_data e referrer_id [SetReferral ref2] s7
                           in (ref2, s8))
                        else (ref1, s6));
                     referrer_data1 = referrer_data\<lparr>referral := ref2\<rparr>
                 in case update_top_list db1 ''top_referrers'' referrer_id referrer_data1
                           ''total_referrals'' of
                      Inl err \<Rightarrow> (Inl err, s8)
                    | Inr db2 \<Rightarrow>
                        (let (r9, s9) = save_database e db2 s8
                         in (Inr (True, Some referrer_data1), s9))))))"

subsection \<open>Views of the persisted state\<close>

text \<open>
  What the theorems below observe of a file system state: the store the primary document
  parses to, and its parts. \<open>stamp\<close> and \<open>committed\<close> describe what a save without a fault
  writes; \<open>accessed\<close> is the record \<open>get_user_data\<close> returns for an identity, given the
  persisted user mapping; \<open>referee_after\<close> and \<open>referrer_after\<close> are the two records as the
  helpers of \<open>process_referral\<close> have saved them when it reaches the top list.
\<close>

definition persisted :: "fs \<Rightarrow> database option" where
  "persisted s = (case db_doc s of Some (Json d) \<Rightarrow> Some d | _ \<Rightarrow> None)"

definition pusers :: "fs \<Rightarrow> (int \<rightharpoonup> user_data)" where
  "pusers s = (case persisted s of Some d \<Rightarrow> users d | None \<Rightarrow> Map.empty)"

definition backup_due :: "env \<Rightarrow> database \<Rightarrow> bool" where
  "backup_due e db =
     (auto_backup \<and> (case last_backup (meta db) of None \<Rightarrow> True
                      | Some t \<Rightarrow> now e - t > backup_interval * 3600))"

definition touch :: "env \<Rightarrow> database \<Rightarrow> database" where
  "touch e db = db\<lparr>meta := (meta db)\<lparr>updated_at := now e\<rparr>\<rparr>"

definition stamp :: "env \<Rightarrow> database \<Rightarrow> database" where
  "stamp e db =
     (if backup_due e db
      then (touch e db)\<lparr>meta := (meta (touch e db))\<lparr>last_backup := Some (now e)\<rparr>\<rparr>
      else touch e db)"

definition committed :: "env \<Rightarrow> database \<Rightarrow> fs \<Rightarrow> fs" where
  "committed e db s =
     s\<lparr>db_doc := Some (Json (stamp e db)), temp_doc := None,
       backups := (if backup_due e db then (now e, Json (touch e db)) # backups s
                   else backups s)\<rparr>"

definition good :: "fs \<Rightarrow> bool" where
  "good s = (persisted s \<noteq> None)"

definition prefs :: "fs \<Rightarrow> referrals_rec option" where
  "prefs s = map_option referrals (persisted s)"

definition pstats :: "fs \<Rightarrow> stats_rec option" where
  "pstats s = map_option stats (persisted s)"

definition allowance :: "int \<Rightarrow> user_data \<Rightarrow> int" where
  "allowance uid ud =
     (if find (\<lambda>(r, ids). uid \<in> set ids) USER_ROLES = None \<and> role ud = ''vip''
      then vip_daily_limit else daily_limit)"

definition accessed :: "env \<Rightarrow> int \<Rightarrow> (int \<rightharpoonup> user_data) \<Rightarrow> user_data" where
  "accessed e uid U =
     (case U uid of
        None \<Rightarrow> (get_user_schema e)\<lparr>user_id := uid\<rparr>
      | Some ud \<Rightarrow>
          if last_reset_date ud \<noteq> today e
          then ud\<lparr>remaining_limit := allowance uid ud, last_reset_date := today e\<rparr>
          else ud)"



text \<open>
  For the leaderboard bound: the entry a user gets, and one insertion into a list.
\<close>

definition entry_of :: "user_data \<Rightarrow> top_entry" where
  "entry_of u = new_entry (user_id u) u (total_generations u)"


subsection \<open>Example stores\<close>

text \<open>
  A store with seven users on 2025-04-08: 1, 2 and 3 are fresh records; 4 is a VIP whose
  quota was last reset the day before; 5 was referred by 3 and was last reset the day
  before; 6 has referred four users; 7 has referred five and has claimed the extra
  bonus. Users 1, 3, 6 and 7 own a referral code each.
\<close>

definition ex_env :: env where
  "ex_env = \<lparr> now = 100000, today = ''2025-04-08'', fault = NoFault,
              gen_code = (\<lambda>u. ''AAAAAAAA'') \<rparr>"

definition ex_env2 :: env where
  "ex_env2 = \<lparr> now = 100060, today = ''2025-04-08'', fault = NoFault,
               gen_code = (\<lambda>u. ''BBBBBBBB'') \<rparr>"

definition ex_user :: "int \<Rightarrow> user_data" where
  "ex_user i = (get_user_schema ex_env)\<lparr>user_id := i\<rparr>"

definition ex_db :: database where
  "ex_db =
     \<lparr> users =
         [1 \<mapsto> ex_user 1, 2 \<mapsto> ex_user 2, 3 \<mapsto> ex_user 3,
          4 \<mapsto> (ex_user 4)\<lparr>role := ''vip'', remaining_limit := 0,
                              last_reset_date := ''2025-04-07''\<rparr>,
          5 \<mapsto> (ex_user 5)\<lparr>remaining_limit := 0, last_reset_date := ''2025-04-07'',
                              referral := (referral (ex_user 5))\<lparr>referred_by := Some 3\<rparr>\<rparr>,
          6 \<mapsto> (ex_user 6)\<lparr>referral := (referral (ex_user 6))
                                \<lparr>referred_users := [10, 11, 12, 13], total_referrals := 4\<rparr>\<rparr>,
          7 \<mapsto> (ex_user 7)\<lparr>referral := (referral (ex_user 7))
                                \<lparr>referred_users := [10, 11, 12, 13, 14], total_referrals := 5,
                                 bonus_claimed := True\<rparr>\<rparr>],
       stats = \<lparr> stats_total_generations = 0, stats_total_users = 7,
                 stats_total_referrals = 0, top_users = [], top_referrers = [] \<rparr>,
       referrals =
         \<lparr> active_links =
             [''codeA'' \<mapsto> \<lparr> link_user_id = 1, link_created = 90000, uses = 0 \<rparr>,
              ''codeC'' \<mapsto> \<lparr> link_user_id = 3, link_created = 90000, uses = 0 \<rparr>,
              ''codeF'' \<mapsto> \<lparr> link_user_id = 6, link_created = 90000, uses = 4 \<rparr>,
              ''codeG'' \<mapsto> \<lparr> link_user_id = 7, link_created = 90000, uses = 5 \<rparr>],
           total_conversions = 9 \<rparr>,
       meta = \<lparr> version = bot_version, last_backup = Some 99000,
                created_at = 80000, updated_at = 99000 \<rparr> \<rparr>"

definition ex_fs :: fs where
  "ex_fs = \<lparr> db_doc = Some (Json ex_db), temp_doc = None, quarantine = Map.empty,
             backups = [] \<rparr>"




section \<open>Properties\<close>

subsection \<open>Saving and loading\<close>

lemma save_database_NoFault:
  "fault e = NoFault \<Longrightarrow> save_database e db s = ((True, stamp e db), committed e db s)"
  by (simp add: save_database_def backup_database_def stamp_def touch_def committed_def
      backup_due_def Let_def split: option.splits)

lemma stamp_fields [simp]:
  "users (stamp e db) = users db" "stats (stamp e db) = stats db"
  "referrals (stamp e db) = referrals db"
  by (simp_all add: stamp_def touch_def)

lemma touch_fields [simp]:
  "users (touch e db) = users db" "stats (touch e db) = stats db"
  "referrals (touch e db) = referrals db"
  by (simp_all add: touch_def)

lemma committed_fields [simp]:
  "db_doc (committed e db s) = Some (Json (stamp e db))"
  "temp_doc (committed e db s) = None"
  "quarantine (committed e db s) = quarantine s"
  by (simp_all add: committed_def)

lemma persisted_committed [simp]: "persisted (committed e db s) = Some (stamp e db)"
  by (simp add: persisted_def)

lemma pusers_committed [simp]: "pusers (committed e db s) = users db"
  by (simp add: pusers_def)

lemma load_database_Json:
  "db_doc s = Some (Json d) \<Longrightarrow> load_database e s = (touch e d, s)"
  by (simp add: load_database_def touch_def)

lemma load_database_None:
  "fault e = NoFault \<Longrightarrow> db_doc s = None \<Longrightarrow>
   load_database e s = (stamp e (get_database_schema e), committed e (get_database_schema e) s)"
  by (simp add: load_database_def save_database_NoFault)

lemma load_database_bad:
  "fault e = NoFault \<Longrightarrow> db_doc s = Some d \<Longrightarrow> \<forall>x. d \<noteq> Json x \<Longrightarrow>
   load_database e s =
     (stamp e (get_database_schema e),
      committed e (get_database_schema e) (s\<lparr>db_doc := None, quarantine := (quarantine s)(now e \<mapsto> d)\<rparr>))"
  by (cases d) (simp_all add: load_database_def save_database_NoFault)

lemma good_persisted: "good s \<Longrightarrow> \<exists>d. persisted s = Some d \<and> db_doc s = Some (Json d)"
  by (auto simp: good_def persisted_def split: option.splits doc.splits)

lemma load_database_good: "good s \<Longrightarrow> persisted s = Some d \<Longrightarrow> load_database e s = (touch e d, s)"
  by (auto dest!: good_persisted simp: load_database_Json)

lemma good_load: "fault e = NoFault \<Longrightarrow> good (snd (load_database e s))"
proof (cases "db_doc s")
  case None
  assume "fault e = NoFault"
  with None show ?thesis by (simp add: load_database_None good_def)
next
  case (Some d)
  assume nf: "fault e = NoFault"
  show ?thesis
  proof (cases d)
    case (Json x)
    with Some show ?thesis by (simp add: load_database_Json good_def persisted_def)
  next
    case (Unparsable x)
    with Some nf show ?thesis by (simp add: load_database_bad good_def)
  next
    case (Partial x)
    with Some nf show ?thesis by (simp add: load_database_bad good_def)
  qed
qed

lemma touch_stamp_schema: "touch e (stamp e (get_database_schema e)) = stamp e (get_database_schema e)"
  by (simp add: touch_def stamp_def get_database_schema_def)

lemma load_database_shape:
  assumes "fault e = NoFault"
  shows "\<exists>d. persisted (snd (load_database e s)) = Some d \<and> fst (load_database e s) = touch e d"
proof (cases "db_doc s")
  case None
  with assms show ?thesis by (simp add: load_database_None touch_stamp_schema)
next
  case (Some d)
  show ?thesis
  proof (cases "\<exists>x. d = Json x")
    case True
    with Some show ?thesis by (auto simp: load_database_Json persisted_def)
  next
    case False
    with Some assms show ?thesis by (simp add: load_database_bad touch_stamp_schema)
  qed
qed

lemma load_database_idem:
  assumes "fault e = NoFault"
  shows "load_database e (snd (load_database e s)) = load_database e s"
proof -
  obtain d where d: "persisted (snd (load_database e s)) = Some d"
    "fst (load_database e s) = touch e d"
    using load_database_shape[OF assms] by blast
  have "good (snd (load_database e s))" using d by (simp add: good_def)
  then have "load_database e (snd (load_database e s)) = (touch e d, snd (load_database e s))"
    using d by (simp add: load_database_good)
  with d show ?thesis by (simp add: prod_eq_iff)
qed

lemma save_database_early_fault:
  "fault e = TempWriteFails \<or> fault e = ReplaceFails \<Longrightarrow>
   save_database e db s = ((False, touch e db), s\<lparr>temp_doc := None\<rparr>)"
  by (auto simp: save_database_def touch_def Let_def)

lemma save_database_backup_copy_fault:
  "fault e = BackupCopyFails \<Longrightarrow>
   save_database e db s = ((True, touch e db), s\<lparr>db_doc := Some (Json (touch e db)), temp_doc := None\<rparr>)"
  by (auto simp: save_database_def touch_def Let_def backup_database_def)

text \<open>
  C8. A save that takes a backup writes the primary document a second time, in place.
  When that write fails half way, \<open>save_database\<close> returns False and the primary document
  no longer parses.
\<close>

theorem save_database_backup_rewrite_partial:
  "fst (fst (save_database (ex_env\<lparr>fault := BackupRewriteFails\<rparr>)
               (get_database_schema ex_env) ex_fs)) = False \<and>
   db_doc ex_fs = Some (Json ex_db) \<and>
   persisted (snd (save_database (ex_env\<lparr>fault := BackupRewriteFails\<rparr>)
               (get_database_schema ex_env) ex_fs)) = None"
  by (simp add: save_database_def Let_def backup_database_def ex_env_def ex_fs_def
      get_database_schema_def auto_backup_def persisted_def)



subsection \<open>Quota\<close>

lemma config_roles_not_vip:
  "find (\<lambda>(r, ids). uid \<in> set ids) USER_ROLES = Some (r, ids) \<Longrightarrow> r \<noteq> ''vip''"
  by (auto simp: USER_ROLES_def split: if_splits)

lemma get_user_role_good:
  assumes "persisted s = Some d" "users d uid = Some ud"
  shows "snd (get_user_role e uid s) = s"
    and "(if fst (get_user_role e uid s) = ''vip'' then vip_daily_limit else daily_limit)
           = allowance uid ud"
proof -
  have g: "good s" using assms by (simp add: good_def)
  show "snd (get_user_role e uid s) = s"
    using assms g by (auto simp: get_user_role_def load_database_good split: option.splits)
  show "(if fst (get_user_role e uid s) = ''vip'' then vip_daily_limit else daily_limit)
           = allowance uid ud"
  proof (cases "find (\<lambda>(r, ids). uid \<in> set ids) USER_ROLES")
    case None
    with assms g show ?thesis
      by (simp add: get_user_role_def load_database_good allowance_def)
  next
    case (Some p)
    obtain r ids where p: "p = (r, ids)" by (cases p)
    with Some config_roles_not_vip have "r \<noteq> ''vip''" by blast
    with Some p show ?thesis by (simp add: get_user_role_def allowance_def)
  qed
qed

lemma get_user_data_good_all:
  assumes nf: "fault e = NoFault" and g: "good s"
  shows "fst (get_user_data e uid s) = accessed e uid (pusers s) \<and>
       good (snd (get_user_data e uid s)) \<and>
       pusers (snd (get_user_data e uid s)) = (pusers s)(uid \<mapsto> accessed e uid (pusers s)) \<and>
       prefs (snd (get_user_data e uid s)) = prefs s"
proof -
  from g obtain d where d: "persisted s = Some d" "db_doc s = Some (Json d)"
    using good_persisted by blast
  have ld: "load_database e s = (touch e d, s)" using d by (simp add: load_database_Json)
  have pu: "pusers s = users d" using d by (simp add: pusers_def)
  show ?thesis
  proof (cases "users d uid")
    case None
    then show ?thesis
      using nf d pu
      by (simp add: get_user_data_def ld save_database_NoFault accessed_def good_def
          prefs_def Let_def)
  next
    case (Some ud)
    have r: "snd (get_user_role e uid s) = s"
      "(if fst (get_user_role e uid s) = ''vip'' then vip_daily_limit else daily_limit)
           = allowance uid ud"
      using get_user_role_good[OF d(1) Some] by auto
    show ?thesis
    proof (cases "last_reset_date ud = today e")
      case True
      with Some nf d pu g show ?thesis
        by (auto simp: get_user_data_def ld accessed_def)
    next
      case False
      with Some nf d pu r show ?thesis
        by (simp add: get_user_data_def ld save_database_NoFault accessed_def good_def
            prefs_def case_prod_beta Let_def)
    qed
  qed
qed

lemma get_user_data_good:
  assumes "fault e = NoFault" "good s"
  shows "fst (get_user_data e uid s) = accessed e uid (pusers s)"
    and "good (snd (get_user_data e uid s))"
    and "pusers (snd (get_user_data e uid s)) = (pusers s)(uid \<mapsto> accessed e uid (pusers s))"
    and "prefs (snd (get_user_data e uid s)) = prefs s"
  using get_user_data_good_all[OF assms, of uid] by simp_all

lemma update_user_data_good_all:
  assumes nf: "fault e = NoFault" and g: "good s"
  shows "good (snd (update_user_data e uid upds s)) \<and>
       fst (update_user_data e uid upds s) = (pusers s uid \<noteq> None) \<and>
       pusers (snd (update_user_data e uid upds s)) =
         (case pusers s uid of
            Some u \<Rightarrow> (pusers s)(uid \<mapsto> foldl apply_update u upds)
          | None \<Rightarrow> pusers s) \<and>
       prefs (snd (update_user_data e uid upds s)) = prefs s \<and>
       pstats (snd (update_user_data e uid upds s)) = pstats s"
proof -
  from g obtain d where d: "persisted s = Some d" "db_doc s = Some (Json d)"
    using good_persisted by blast
  have ld: "load_database e s = (touch e d, s)" using d by (simp add: load_database_Json)
  have pu: "pusers s = users d" using d by (simp add: pusers_def)
  show ?thesis
    using nf d pu g
    by (cases "users d uid")
       (simp_all add: update_user_data_def ld save_database_NoFault good_def prefs_def
          pstats_def Let_def)
qed

lemma update_user_data_good:
  assumes "fault e = NoFault" "good s"
  shows "good (snd (update_user_data e uid upds s))"
    and "fst (update_user_data e uid upds s) = (pusers s uid \<noteq> None)"
    and "pusers (snd (update_user_data e uid upds s)) =
         (case pusers s uid of
            Some u \<Rightarrow> (pusers s)(uid \<mapsto> foldl apply_update u upds)
          | None \<Rightarrow> pusers s)"
    and "prefs (snd (update_user_data e uid upds s)) = prefs s"
    and "pstats (snd (update_user_data e uid upds s)) = pstats s"
  using update_user_data_good_all[OF assms, of uid upds] by simp_all


lemma get_user_data_reload:
  assumes "fault e = NoFault"
  shows "get_user_data e uid s = get_user_data e uid (snd (load_database e s))"
  by (simp add: get_user_data_def load_database_idem[OF assms])


lemma accessed_today [simp]: "last_reset_date (accessed e uid U) = today e"
  by (simp add: accessed_def get_user_schema_def split: option.splits)


lemma accessed_upd_other [simp]:
  "uid \<noteq> k \<Longrightarrow> accessed e uid (U(k \<mapsto> v)) = accessed e uid U"
  by (simp add: accessed_def)





text \<open>
  C7. \<open>modify_user_limit\<close> returns success and \<open>max(0, remaining_limit + amount)\<close>, where
  \<open>remaining_limit\<close> is that of the record \<open>get_user_data\<close> returns; the result is never
  negative, and it is the quota of the persisted record afterwards. With a quota of 2 and
  an amount of -1000 the answer is (True, 0).
\<close>

theorem modify_user_limit_clamps:
  assumes "fault e = NoFault"
  shows "let (ud, s1) = get_user_data e uid s;
             ((ok, n), s2) = modify_user_limit e uid amount s
         in ok \<and> n = max 0 (remaining_limit ud + amount) \<and> 0 \<le> n \<and>
            map_option remaining_limit (pusers s2 uid) = Some n"
proof -
  let ?s0 = "snd (load_database e s)"
  have g0: "good ?s0" using assms by (rule good_load)
  have gd: "get_user_data e uid s = get_user_data e uid ?s0"
    using assms by (rule get_user_data_reload)
  note G = get_user_data_good[OF assms g0, of uid]
  let ?s1 = "snd (get_user_data e uid s)"
  let ?u1 = "fst (get_user_data e uid s)"
  have g1: "good ?s1" and u1: "pusers ?s1 uid = Some ?u1"
    using G gd by simp_all
  note U = update_user_data_good[OF assms g1, of uid]
  show ?thesis
    using U u1
    by (simp add: modify_user_limit_def case_prod_beta Let_def)
qed

text \<open>Witness for C7: quota 2, amount -1000.\<close>

theorem modify_user_limit_clamps_witness:
  "fault ex_env = NoFault \<and>
   fst (modify_user_limit ex_env 2 (- 1000) ex_fs) = (True, 0) \<and>
   map_option remaining_limit (pusers (snd (modify_user_limit ex_env 2 (- 1000) ex_fs)) 2) = Some 0"
proof -
  have h: "fault ex_env = NoFault" by (simp add: ex_env_def)
  have q: "remaining_limit (fst (get_user_data ex_env 2 ex_fs)) = 2" by code_simp
  show ?thesis
    using h q modify_user_limit_clamps[OF h, of 2 ex_fs "- 1000"]
    by (auto simp: case_prod_beta Let_def prod_eq_iff)
qed

subsection \<open>Referrals\<close>

lemma update_top_list_total_referrals:
  "update_top_list db ''top_referrers'' uid ud ''total_referrals'' = Inl KeyError"
  by (simp add: update_top_list_def get_list_def user_key_def)

lemma process_referral_outcomes:
  "fst (process_referral e b c s) = Inr (False, None) \<or>
   fst (process_referral e b c s) = Inl KeyError"
  by (simp add: process_referral_def update_top_list_total_referrals case_prod_beta Let_def
      split: option.splits)



text \<open>
  C1. No call of \<open>process_referral\<close> returns success: it answers \<open>(False, None)\<close> or raises
  \<open>KeyError\<close>. A redemption that passes the three checks (user 2 redeems the code of user
  1) raises \<open>KeyError\<close> in \<open>update_top_list\<close>, since a user record has no top-level
  \<open>total_referrals\<close>. By then the helpers have saved the referee's \<open>referred_by\<close> with
  their own saves; the store holding the incremented \<open>uses\<close> and \<open>total_conversions\<close> is
  not saved, and the persisted counters are unchanged.
\<close>

theorem process_referral_raises_before_commit:
  "(fst (process_referral e b c s) = Inr (False, None) \<or>
    fst (process_referral e b c s) = Inl KeyError) \<and>
   fst (process_referral ex_env 2 ''codeA'' ex_fs) = Inl KeyError \<and>
   map_option (referred_by \<circ> referral) (pusers (snd (process_referral ex_env 2 ''codeA'' ex_fs)) 2)
     = Some (Some 1) \<and>
   map_option (\<lambda>r. (map_option uses (active_links r ''codeA''), total_conversions r))
     (prefs ex_fs) = Some (Some 0, 9) \<and>
   map_option (\<lambda>r. (map_option uses (active_links r ''codeA''), total_conversions r))
     (prefs (snd (process_referral ex_env 2 ''codeA'' ex_fs))) = Some (Some 0, 9)"
proof -
  have "fst (process_referral ex_env 2 ''codeA'' ex_fs) = Inl KeyError \<and>
   map_option (referred_by \<circ> referral) (pusers (snd (process_referral ex_env 2 ''codeA'' ex_fs)) 2)
     = Some (Some 1) \<and>
   map_option (\<lambda>r. (map_option uses (active_links r ''codeA''), total_conversions r))
     (prefs ex_fs) = Some (Some 0, 9) \<and>
   map_option (\<lambda>r. (map_option uses (active_links r ''codeA''), total_conversions r))
     (prefs (snd (process_referral ex_env 2 ''codeA'' ex_fs))) = Some (Some 0, 9)"
    by code_simp
  with process_referral_outcomes[of e b c s] show ?thesis by blast
qed








text \<open>
  C4. User 1 asks for a referral link twice. After the first call the persisted record
  of user 1 has no code (the store saved last was loaded before the code was written to
  the record), so the second call derives and registers another code: both codes are
  active links of user 1.
\<close>

theorem create_referral_link_not_idempotent:
  "map_option (referral_code \<circ> referral)
     (pusers (snd (create_referral_link ex_env 1 ex_fs)) 1) = Some [] \<and>
   map_option (\<lambda>r. (map_option link_user_id (active_links r ''AAAAAAAA''),
                     map_option link_user_id (active_links r ''BBBBBBBB'')))
     (prefs (snd (create_referral_link ex_env2 1 (snd (create_referral_link ex_env 1 ex_fs)))))
     = Some (Some 1, Some 1)"
  by code_simp

subsection \<open>Leaderboard\<close>













lemma top_user_id_entry_of [simp]: "top_user_id (entry_of u) = user_id u"
  by (simp add: entry_of_def new_entry_def)

lemma top_metric_entry_of [simp]: "top_metric (entry_of u) = total_generations u"
  by (simp add: entry_of_def new_entry_def)






end
